theory Spec2Isabelle
  imports Main "HOL-Library.Word" "HOL-Library.AList"
begin

section \<open>Data model of \<^verbatim>\<open>fn/routes.go\<close>\<close>

text \<open>
  A Go \<^verbatim>\<open>map[string]V\<close> is an association list; a \<^verbatim>\<open>nil\<close> map is \<open>None\<close>.
  Reading a key is \<open>map_of\<close>, \<^verbatim>\<open>m[k] = v\<close> is \<open>AList.update\<close>, \<^verbatim>\<open>delete(m, k)\<close> is
  \<open>AList.delete\<close> (no effect when the key is absent). A \<^verbatim>\<open>range\<close> loop visits the entries
  of a map once each, in an order Go leaves unspecified: the list order of the map that
  is ranged over stands for the order of that traversal, so a statement about every
  list is a statement about every traversal order.
  Go strings are byte sequences, as \<open>string\<close> is.
\<close>

type_synonym 'v gomap = "(string \<times> 'v) list"

text \<open>
  \<^verbatim>\<open>fnmodels.Route\<close>, with the fields this file reads and writes: \<^verbatim>\<open>Memory\<close> is an
  \<^verbatim>\<open>int64\<close>, \<^verbatim>\<open>MaxConcurrency\<close> an \<^verbatim>\<open>int32\<close>, \<^verbatim>\<open>Timeout\<close> a \<^verbatim>\<open>*int64\<close> (\<open>None\<close> is the
  nil pointer).
\<close>

record route =
  Path :: string
  Image :: string
  Memory :: "64 word"
  Type :: string
  Config :: "string gomap option"
  Headers :: "string list gomap option"
  Format :: string
  MaxConcurrency :: "32 word"
  Timeout :: "64 word option"

text \<open>
  The errors of the generated API client, by the type the code switches on. Each carries
  the text the code prints: the payload's message for the typed errors, the error's own
  formatting for every other error.
\<close>

datatype get_error =
    GetAppsAppRoutesRouteNotFound string
  | GetAppsAppRoutesDefault string
  | GetOtherError string

datatype patch_error =
    PatchAppsAppRoutesRouteBadRequest string
  | PatchAppsAppRoutesRouteNotFound string
  | PatchAppsAppRoutesRouteDefault string
  | PatchOtherError string

datatype post_error =
    PostAppsAppRoutesBadRequest string
  | PostAppsAppRoutesConflict string
  | PostAppsAppRoutesDefault string
  | PostOtherError string

text \<open>The remote service, as the three calls of \<^verbatim>\<open>a.client.Routes\<close> used here.\<close>

record client =
  GetAppsAppRoutesRoute :: "string \<Rightarrow> string \<Rightarrow> get_error + route"
  PatchAppsAppRoutesRoute :: "string \<Rightarrow> string \<Rightarrow> route \<Rightarrow> patch_error option"
  PostAppsAppRoutes :: "string \<Rightarrow> route \<Rightarrow> post_error + route"

text \<open>The calls a command issued, in order, with what it sent.\<close>

datatype call =
    GetCall string string
  | PatchCall string string route
  | PostCall string route

text \<open>
  What a command does: it returns \<^verbatim>\<open>nil\<close>, returns an error with a message, or panics
  (index out of range, nil dereference).
\<close>

datatype outcome = Ok | Error string | Panic

text \<open>The panic a merge loop can raise.\<close>

datatype panic = IndexOutOfRange

section \<open>patchRoute\<close>

text \<open>
  Lines 400-406: the loop over \<^verbatim>\<open>r.Config\<close>. \<^verbatim>\<open>k[0]\<close> panics on the empty key;
  \<^verbatim>\<open>string(k[0]) == "-"\<close> holds exactly when the first byte is \<^verbatim>\<open>'-'\<close>; the key deleted
  is \<^verbatim>\<open>k[1:]\<close>.
\<close>

fun merge_config :: "string gomap \<Rightarrow> string gomap \<Rightarrow> panic + string gomap" where
  "merge_config [] cur = Inr cur"
| "merge_config ((k, v) # delta) cur =
     (case k of
        [] \<Rightarrow> Inl IndexOutOfRange
      | c # rest \<Rightarrow>
          if c = CHR ''-'' then merge_config delta (AList.delete rest cur)
          else merge_config delta (AList.update k v cur))"

text \<open>
  Lines 409-415: the loop over \<^verbatim>\<open>r.Headers\<close>. The key deleted is \<^verbatim>\<open>k\<close> itself, dash
  included.
\<close>

fun merge_headers ::
  "string list gomap \<Rightarrow> string list gomap \<Rightarrow> panic + string list gomap" where
  "merge_headers [] cur = Inr cur"
| "merge_headers ((k, v) # delta) cur =
     (case k of
        [] \<Rightarrow> Inl IndexOutOfRange
      | c # rest \<Rightarrow>
          if c = CHR ''-'' then merge_headers delta (AList.delete k cur)
          else merge_headers delta (AList.update k v cur))"

text \<open>The entries of a map that may be nil: ranging over a nil map visits nothing.\<close>

definition entries :: "'v gomap option \<Rightarrow> 'v gomap" where
  "entries m = (case m of None \<Rightarrow> [] | Some es \<Rightarrow> es)"

text \<open>Lines 389-397: empty maps for nil ones, and the path cleared.\<close>

definition normalize :: "route \<Rightarrow> route" where
  "normalize f =
     f\<lparr>Config := Some (entries (Config f)),
       Headers := Some (entries (Headers f)),
       Path := []\<rparr>"

text \<open>Lines 417-434: the scalar fields, on a route whose maps are already merged.\<close>

definition patch_fields :: "route \<Rightarrow> route \<Rightarrow> route" where
  "patch_fields r f =
     (let f1 = (if Image r \<noteq> [] then f\<lparr>Image := Image r\<rparr> else f);
          f2 = (if Format r \<noteq> [] then f1\<lparr>Format := Format r\<rparr> else f1);
          f3 = (if Type r \<noteq> [] then f2\<lparr>Type := Type r\<rparr> else f2);
          f4 = (if 0 <s MaxConcurrency r then f3\<lparr>MaxConcurrency := MaxConcurrency r\<rparr> else f3);
          f5 = (if 0 <s Memory r then f4\<lparr>Memory := Memory r\<rparr> else f4)
      in (if Timeout r \<noteq> None then f5\<lparr>Timeout := Timeout r\<rparr> else f5))"

text \<open>
  Lines 398-435, on the route as normalized above (its maps are not nil, so the writes
  of the loops cannot hit a nil map): nothing for a nil delta; otherwise the config
  loop (skipped for a nil \<^verbatim>\<open>r.Config\<close>), the headers loop (skipped for a nil
  \<^verbatim>\<open>r.Headers\<close>), then the scalar fields. A panic in a loop ends the function.
\<close>

definition apply_delta :: "route option \<Rightarrow> route \<Rightarrow> panic + route" where
  "apply_delta ro f =
     (case ro of
        None \<Rightarrow> Inr f
      | Some r \<Rightarrow>
          (case (case Config r of
                   None \<Rightarrow> Inr (entries (Config f))
                 | Some d \<Rightarrow> merge_config d (entries (Config f))) of
             Inl p \<Rightarrow> Inl p
           | Inr cfg \<Rightarrow>
               (case (case Headers r of
                        None \<Rightarrow> Inr (entries (Headers f))
                      | Some d \<Rightarrow> merge_headers d (entries (Headers f))) of
                  Inl p \<Rightarrow> Inl p
                | Inr hs \<Rightarrow> Inr (patch_fields r (f\<lparr>Config := Some cfg, Headers := Some hs\<rparr>)))))"

text \<open>Lines 379-387 and 444-454: the message of the error returned.\<close>

fun get_error_message :: "get_error \<Rightarrow> string" where
  "get_error_message (GetAppsAppRoutesRouteNotFound m) = ''error: '' @ m"
| "get_error_message (GetAppsAppRoutesDefault m) = ''unexpected error: '' @ m"
| "get_error_message (GetOtherError e) = ''unexpected error: '' @ e"

fun patch_error_message :: "patch_error \<Rightarrow> string" where
  "patch_error_message (PatchAppsAppRoutesRouteBadRequest m) = ''error: '' @ m"
| "patch_error_message (PatchAppsAppRoutesRouteNotFound m) = ''error: '' @ m"
| "patch_error_message (PatchAppsAppRoutesRouteDefault m) = ''unexpected error: '' @ m"
| "patch_error_message (PatchOtherError e) = ''unexpected error: '' @ e"

text \<open>Lines 372-457. The result is the outcome and the calls issued.\<close>

definition patchRoute ::
  "client \<Rightarrow> string \<Rightarrow> string \<Rightarrow> route option \<Rightarrow> outcome \<times> call list" where
  "patchRoute a appName routePath r =
     (case GetAppsAppRoutesRoute a appName routePath of
        Inl err \<Rightarrow> (Error (get_error_message err), [GetCall appName routePath])
      | Inr fetched \<Rightarrow>
          (case apply_delta r (normalize fetched) of
             Inl p \<Rightarrow> (Panic, [GetCall appName routePath])
           | Inr body \<Rightarrow>
               ((case PatchAppsAppRoutesRoute a appName routePath body of
                   None \<Rightarrow> Ok
                 | Some err \<Rightarrow> Error (patch_error_message err)),
                [GetCall appName routePath, PatchCall appName routePath body])))"

section \<open>The command line, the function file and the helpers outside this file\<close>

text \<open>
  \<^verbatim>\<open>cli.Context\<close>: the positional arguments and the flags the commands read. \<^verbatim>\<open>c.Int\<close>
  is a Go \<^verbatim>\<open>int\<close> (64 bits), \<^verbatim>\<open>c.Duration\<close> a \<^verbatim>\<open>time.Duration\<close> (an \<^verbatim>\<open>int64\<close> of
  nanoseconds). A flag that is not given reads as its declared default, which for
  \<^verbatim>\<open>update\<close> is the zero value.
\<close>

record cli_context =
  Args :: "string list"
  flag_memory :: "64 word"
  flag_type :: string
  flag_config :: "string list"
  flag_headers :: "string list"
  flag_format :: string
  flag_max_concurrency :: "64 word"
  flag_timeout :: "64 word"

text \<open>\<^verbatim>\<open>c.Args().Get(n)\<close>: the empty string when there is no such argument.\<close>

definition arg_get :: "string list \<Rightarrow> nat \<Rightarrow> string" where
  "arg_get args n = (if n < length args then args ! n else [])"

text \<open>
  The function file, with the fields the commands read. The method \<^verbatim>\<open>FullName()\<close> is
  not in this file: \<open>ffFullName\<close> is the string it returns. The other fields are
  pointers (\<open>None\<close> is nil).
\<close>

record funcfile =
  ffFullName :: string
  ffFormat :: "string option"
  ffMaxConcurrency :: "64 word option"
  ffTimeout :: "64 word option"
  ffPath :: "string option"

datatype load_error = notFoundError | otherLoadError string

text \<open>
  What the commands take from the rest of the package: the pair \<^verbatim>\<open>loadFuncfile()\<close>
  returns (a pointer, nil as \<open>None\<close>, and an error, nil as \<open>None\<close>) and the function
  \<^verbatim>\<open>extractEnvConfig\<close>. Neither body is in this file; both are parameters here.
\<close>

record env =
  loadFuncfile :: "funcfile option \<times> load_error option"
  extractEnvConfig :: "string list \<Rightarrow> string gomap option"

text \<open>
  \<^verbatim>\<open>int64(timeout.Seconds())\<close>: whole seconds, truncated towards zero. Go computes
  \<^verbatim>\<open>Seconds()\<close> in \<^verbatim>\<open>float64\<close>; the conversion back agrees with the exact quotient
  below for every whole number of seconds and for every duration shorter than
  \<open>2^24\<close> seconds.
\<close>

definition duration_seconds :: "64 word \<Rightarrow> 64 word" where
  "duration_seconds d =
     word_of_int (if 0 \<le> sint d then sint d div 1000000000
                  else - ((- sint d) div 1000000000))"

text \<open>\<^verbatim>\<open>strings.Split(s, sep)\<close> for a separator of one byte.\<close>

fun split_on :: "char \<Rightarrow> string \<Rightarrow> string list" where
  "split_on c [] = [[]]"
| "split_on c (x # xs) =
     (if x = c then [] # split_on c xs
      else (case split_on c xs of [] \<Rightarrow> [[x]] | p # ps \<Rightarrow> (x # p) # ps))"

text \<open>Lines 517-521: \<^verbatim>\<open>parts[1]\<close> panics on a header without \<^verbatim>\<open>=\<close>.\<close>

fun parse_headers :: "string list \<Rightarrow> string list gomap \<Rightarrow> panic + string list gomap" where
  "parse_headers [] headers = Inr headers"
| "parse_headers (header # rest) headers =
     (case split_on CHR ''='' header of
        k # v # _ \<Rightarrow> parse_headers rest (AList.update k (split_on CHR '';'' v) headers)
      | _ \<Rightarrow> Inl IndexOutOfRange)"

section \<open>update\<close>

text \<open>
  Lines 460-533: everything \<^verbatim>\<open>update\<close> does before it calls \<^verbatim>\<open>patchRoute\<close>. The result
  is the early outcome, or the application, the path and the route passed on.
  After line 483 every path reads a field of \<^verbatim>\<open>ff\<close>: a nil \<^verbatim>\<open>ff\<close> panics.
\<close>

definition update_delta :: "env \<Rightarrow> cli_context \<Rightarrow> outcome + (string \<times> string \<times> route)" where
  "update_delta e c =
     (if length (Args c) < 2
      then Inl (Error ''error: route update takes at least two arguments: an app name and a path'')
      else
        let appName = arg_get (Args c) 0;
            route0 = arg_get (Args c) 1;
            image0 = arg_get (Args c) 2
        in
          (case (case snd (loadFuncfile e) of
                   None \<Rightarrow> None
                 | Some notFoundError \<Rightarrow>
                     if image0 = []
                     then Some ''error: image name is missing or no function file found''
                     else None
                 | Some (otherLoadError m) \<Rightarrow> Some m) of
             Some msg \<Rightarrow> Inl (Error msg)
           | None \<Rightarrow>
               (case fst (loadFuncfile e) of
                  None \<Rightarrow> Inl Panic
                | Some ff \<Rightarrow>
                    let img = (if image0 \<noteq> [] then ffFullName ff else image0);
                        format0 = (case ffFormat ff of Some x \<Rightarrow> x | None \<Rightarrow> []);
                        maxC0 = (case ffMaxConcurrency ff of Some x \<Rightarrow> x | None \<Rightarrow> 0);
                        timeout0 = (case ffTimeout ff of Some x \<Rightarrow> x | None \<Rightarrow> 0);
                        route = (if route0 = []
                                 then (case ffPath ff of Some x \<Rightarrow> x | None \<Rightarrow> route0)
                                 else route0)
                    in
                      if route = [] then Inl (Error ''error: route path is missing'')
                      else
                        let format = (if flag_format c \<noteq> [] then flag_format c else format0);
                            maxC = (if 0 <s flag_max_concurrency c
                                    then flag_max_concurrency c else maxC0);
                            timeout = (if 0 <s flag_timeout c then flag_timeout c else timeout0)
                        in
                          (case parse_headers (flag_headers c) [] of
                             Inl p \<Rightarrow> Inl Panic
                           | Inr headers \<Rightarrow>
                               Inr (appName, route,
                                    \<lparr>Path = [],
                                     Image = img,
                                     Memory = flag_memory c,
                                     Type = flag_type c,
                                     Config = extractEnvConfig e (flag_config c),
                                     Headers = Some headers,
                                     Format = format,
                                     MaxConcurrency = ucast maxC,
                                     Timeout = Some (duration_seconds timeout)\<rparr>)))))"

text \<open>Lines 459-542.\<close>

definition update :: "client \<Rightarrow> env \<Rightarrow> cli_context \<Rightarrow> outcome \<times> call list" where
  "update a e c =
     (case update_delta e c of
        Inl out \<Rightarrow> (out, [])
      | Inr (appName, route, r) \<Rightarrow> patchRoute a appName route (Some r))"

section \<open>create\<close>

fun post_error_message :: "post_error \<Rightarrow> string" where
  "post_error_message (PostAppsAppRoutesBadRequest m) = ''error: '' @ m"
| "post_error_message (PostAppsAppRoutesConflict m) = ''error: '' @ m"
| "post_error_message (PostAppsAppRoutesDefault m) = ''unexpected error: '' @ m"
| "post_error_message (PostOtherError e) = ''unexpected error: '' @ e"

text \<open>
  Lines 295-317: the function file is read only when no image is given. The result is
  the early outcome, or the image, format, concurrency, timeout and path so far.
\<close>

definition create_prefill ::
  "env \<Rightarrow> string \<Rightarrow> string \<Rightarrow> outcome + (string \<times> string \<times> 64 word \<times> 64 word \<times> string)" where
  "create_prefill e route0 image0 =
     (if image0 = [] then
        (case snd (loadFuncfile e) of
           Some notFoundError \<Rightarrow>
             Inl (Error ''error: image name is missing or no function file found'')
         | Some (otherLoadError m) \<Rightarrow> Inl (Error m)
         | None \<Rightarrow>
             (case fst (loadFuncfile e) of
                None \<Rightarrow> Inl Panic
              | Some ff \<Rightarrow>
                  Inr (ffFullName ff,
                       (case ffFormat ff of Some x \<Rightarrow> x | None \<Rightarrow> []),
                       (case ffMaxConcurrency ff of Some x \<Rightarrow> x | None \<Rightarrow> 0),
                       (case ffTimeout ff of Some x \<Rightarrow> x | None \<Rightarrow> 0),
                       (if route0 = []
                        then (case ffPath ff of Some x \<Rightarrow> x | None \<Rightarrow> route0)
                        else route0))))
      else Inr (image0, [], 0, 0, route0))"

text \<open>Lines 281-370.\<close>

definition create :: "client \<Rightarrow> env \<Rightarrow> cli_context \<Rightarrow> outcome \<times> call list" where
  "create a e c =
     (if length (Args c) < 2
      then (Error ''error: routes listing takes at least two arguments: an app name and a path'', [])
      else
        let appName = arg_get (Args c) 0 in
          (case create_prefill e (arg_get (Args c) 1) (arg_get (Args c) 2) of
             Inl out \<Rightarrow> (out, [])
           | Inr (img, format0, maxC0, timeout0, route) \<Rightarrow>
               if route = [] then (Error ''error: route path is missing'', [])
               else if img = [] then (Error ''error: function image name is missing'', [])
               else
                 let format = (if flag_format c \<noteq> [] then flag_format c else format0);
                     maxC = (if 0 <s flag_max_concurrency c
                             then flag_max_concurrency c else maxC0);
                     timeout = (if 0 <s flag_timeout c then flag_timeout c else timeout0);
                     body = \<lparr>Path = route,
                             Image = img,
                             Memory = flag_memory c,
                             Type = flag_type c,
                             Config = extractEnvConfig e (flag_config c),
                             Headers = None,
                             Format = format,
                             MaxConcurrency = ucast maxC,
                             Timeout = Some (duration_seconds timeout)\<rparr>
                 in
                   ((case PostAppsAppRoutes a appName body of
                       Inl err \<Rightarrow> Error (post_error_message err)
                     | Inr resp \<Rightarrow> Ok),
                    [PostCall appName body])))"

section \<open>Predicates on deltas and example inputs\<close>

text \<open>A deletion marker: a key whose first byte is the dash.\<close>

definition is_deletion :: "string \<Rightarrow> bool" where
  "is_deletion k = (case k of [] \<Rightarrow> False | c # rest \<Rightarrow> c = CHR ''-'')"

text \<open>
  A delta is free of conflicts when no key that sets an entry occurs together with the
  deletion marker of the same entry.
\<close>

definition conflict_free :: "'v gomap \<Rightarrow> bool" where
  "conflict_free d =
     list_all (\<lambda>k. is_deletion k \<or> (CHR ''-'' # k) \<notin> set (map fst d)) (map fst d)"

text \<open>
  Example inputs for the concrete evaluations below: a route as the server holds it, a
  server that returns it and accepts every replacement, a server that has no such
  route, a function file, and the two situations of the working directory (a function
  file is found, none is found). The example \<^verbatim>\<open>extractEnvConfig\<close> is the one of a run
  without \<^verbatim>\<open>--config\<close> flags: an empty, non-nil map.
\<close>

definition example_route :: route where
  "example_route =
     \<lparr>Path = ''/hello'', Image = ''iron/hello'', Memory = 128, Type = ''sync'',
      Config = Some [(''a'', ''1'')], Headers = Some [(''X-Drop'', [''1''])],
      Format = ''http'', MaxConcurrency = 1, Timeout = Some 30\<rparr>"

definition example_client :: client where
  "example_client =
     \<lparr>GetAppsAppRoutesRoute = (\<lambda>app p. Inr example_route),
      PatchAppsAppRoutesRoute = (\<lambda>app p body. None),
      PostAppsAppRoutes = (\<lambda>app body. Inr body)\<rparr>"

definition notfound_client :: client where
  "notfound_client =
     \<lparr>GetAppsAppRoutesRoute = (\<lambda>app p. Inl (GetAppsAppRoutesRouteNotFound ''Route not found'')),
      PatchAppsAppRoutesRoute = (\<lambda>app p body. Some (PatchAppsAppRoutesRouteNotFound ''Route not found'')),
      PostAppsAppRoutes = (\<lambda>app body. Inr body)\<rparr>"

definition empty_delta :: route where
  "empty_delta =
     \<lparr>Path = [], Image = [], Memory = 0, Type = [], Config = None, Headers = None,
      Format = [], MaxConcurrency = 0, Timeout = None\<rparr>"

definition example_funcfile :: funcfile where
  "example_funcfile =
     \<lparr>ffFullName = ''local/hello:0.0.1'', ffFormat = Some ''json'',
      ffMaxConcurrency = Some 5, ffTimeout = Some 30000000000, ffPath = Some ''/hello''\<rparr>"

definition funcfile_env :: env where
  "funcfile_env =
     \<lparr>loadFuncfile = (Some example_funcfile, None), extractEnvConfig = (\<lambda>cs. Some [])\<rparr>"

definition no_funcfile_env :: env where
  "no_funcfile_env =
     \<lparr>loadFuncfile = (None, Some notFoundError), extractEnvConfig = (\<lambda>cs. Some [])\<rparr>"

definition example_context :: cli_context where
  "example_context =
     \<lparr>Args = [''app1'', ''/hello''], flag_memory = 0, flag_type = [], flag_config = [],
      flag_headers = [], flag_format = [], flag_max_concurrency = 0, flag_timeout = 0\<rparr>"

section \<open>Facts about the two merge loops\<close>

lemma merge_config_total:
  "[] \<notin> fst ` set d \<Longrightarrow> \<exists>m. merge_config d cur = Inr m"
  by (induction d arbitrary: cur) (auto split: list.splits)

lemma merge_config_panics:
  "[] \<in> fst ` set d \<Longrightarrow> merge_config d cur = Inl IndexOutOfRange"
  by (induction d arbitrary: cur) (auto split: list.splits)

lemma merge_headers_total:
  "[] \<notin> fst ` set d \<Longrightarrow> \<exists>m. merge_headers d cur = Inr m"
  by (induction d arbitrary: cur) (auto split: list.splits)

lemma merge_headers_panics:
  "[] \<in> fst ` set d \<Longrightarrow> merge_headers d cur = Inl IndexOutOfRange"
  by (induction d arbitrary: cur) (auto split: list.splits)

text \<open>A step of either loop that returned had a key with a first byte.\<close>

lemma merge_config_step:
  "merge_config ((k, v) # d) cur = Inr m \<Longrightarrow>
   \<exists>c rest. k = c # rest \<and>
     merge_config d (if c = CHR ''-'' then AList.delete rest cur else AList.update k v cur) = Inr m"
  by (cases k) (auto split: if_splits)

lemma merge_headers_step:
  "merge_headers ((k, v) # d) cur = Inr m \<Longrightarrow>
   \<exists>c rest. k = c # rest \<and>
     merge_headers d (if c = CHR ''-'' then AList.delete k cur else AList.update k v cur) = Inr m"
  by (cases k) (auto split: if_splits)

text \<open>An entry that the delta neither sets nor deletes is left as it was.\<close>

lemma merge_config_untouched:
  "merge_config d cur = Inr m \<Longrightarrow> t \<notin> fst ` set d \<or> is_deletion t \<Longrightarrow>
   (CHR ''-'' # t) \<notin> fst ` set d \<Longrightarrow> map_of m t = map_of cur t"
proof (induction d arbitrary: cur)
  case Nil
  then show ?case by simp
next
  case (Cons e d)
  obtain k v where e: "e = (k, v)" by (cases e)
  from Cons.prems have rest_ok: "t \<notin> fst ` set d \<or> is_deletion t" "(CHR ''-'' # t) \<notin> fst ` set d"
    by auto
  from Cons.prems(1) e have "merge_config ((k, v) # d) cur = Inr m" by simp
  then obtain c rest where k: "k = c # rest"
    and step: "merge_config d (if c = CHR ''-'' then AList.delete rest cur else AList.update k v cur) = Inr m"
    using merge_config_step by blast
  have del: "c = CHR ''-'' \<Longrightarrow> merge_config d (AList.delete rest cur) = Inr m"
    using step by simp
  have upd: "c \<noteq> CHR ''-'' \<Longrightarrow> merge_config d (AList.update k v cur) = Inr m"
    using step by simp
  show ?case
  proof (cases "c = CHR ''-''")
    case True
    from Cons.prems(3) e k True have "rest \<noteq> t" by auto
    with Cons.IH [OF del [OF True] rest_ok] show ?thesis by (simp add: delete_conv')
  next
    case False
    from Cons.prems(2) e k False have "k \<noteq> t" by (auto simp: is_deletion_def)
    with Cons.IH [OF upd [OF False] rest_ok] show ?thesis by (simp add: update_conv')
  qed
qed

text \<open>A key that sets an entry, with no deletion marker for it in the delta, wins.\<close>

lemma merge_config_set:
  "merge_config d cur = Inr m \<Longrightarrow> distinct (map fst d) \<Longrightarrow> (k, v) \<in> set d \<Longrightarrow>
   \<not> is_deletion k \<Longrightarrow> (CHR ''-'' # k) \<notin> fst ` set d \<Longrightarrow> map_of m k = Some v"
proof (induction d arbitrary: cur)
  case Nil
  then show ?case by simp
next
  case (Cons e d)
  obtain k' v' where e: "e = (k', v')" by (cases e)
  from Cons.prems have dd: "distinct (map fst d)" and nd: "(CHR ''-'' # k) \<notin> fst ` set d"
    by auto
  from Cons.prems(1) e have "merge_config ((k', v') # d) cur = Inr m" by simp
  then obtain c rest where k': "k' = c # rest"
    and step: "merge_config d (if c = CHR ''-'' then AList.delete rest cur else AList.update k' v' cur) = Inr m"
    using merge_config_step by blast
  have del: "c = CHR ''-'' \<Longrightarrow> merge_config d (AList.delete rest cur) = Inr m"
    using step by simp
  have upd: "c \<noteq> CHR ''-'' \<Longrightarrow> merge_config d (AList.update k' v' cur) = Inr m"
    using step by simp
  show ?case
  proof (cases "(k, v) = e")
    case True
    with e have kk: "k' = k" "v' = v" by auto
    with Cons.prems(4) k' have c: "c \<noteq> CHR ''-''" by (simp add: is_deletion_def)
    from Cons.prems(2) e kk have "k \<notin> fst ` set d" by auto
    with merge_config_untouched [OF upd [OF c] _ nd] kk
    have "map_of m k = map_of (AList.update k v cur) k" by blast
    then show ?thesis by (simp add: update_conv')
  next
    case False
    with Cons.prems have mem: "(k, v) \<in> set d" by auto
    from del upd obtain cur' where "merge_config d cur' = Inr m" by blast
    from Cons.IH [OF this dd mem Cons.prems(4) nd] show ?thesis .
  qed
qed

text \<open>A deletion marker, with no key in the delta that sets the same entry, wins.\<close>

lemma merge_config_deleted:
  "merge_config d cur = Inr m \<Longrightarrow> distinct (map fst d) \<Longrightarrow> (CHR ''-'' # t) \<in> fst ` set d \<Longrightarrow>
   t \<notin> fst ` set d \<or> is_deletion t \<Longrightarrow> map_of m t = None"
proof (induction d arbitrary: cur)
  case Nil
  then show ?case by simp
next
  case (Cons e d)
  obtain k' v' where e: "e = (k', v')" by (cases e)
  from Cons.prems have dd: "distinct (map fst d)" and nt: "t \<notin> fst ` set d \<or> is_deletion t"
    by auto
  from Cons.prems(1) e have "merge_config ((k', v') # d) cur = Inr m" by simp
  then obtain c rest where k': "k' = c # rest"
    and step: "merge_config d (if c = CHR ''-'' then AList.delete rest cur else AList.update k' v' cur) = Inr m"
    using merge_config_step by blast
  have del: "c = CHR ''-'' \<Longrightarrow> merge_config d (AList.delete rest cur) = Inr m"
    using step by simp
  have upd: "c \<noteq> CHR ''-'' \<Longrightarrow> merge_config d (AList.update k' v' cur) = Inr m"
    using step by simp
  show ?case
  proof (cases "k' = CHR ''-'' # t")
    case True
    with k' del have m: "merge_config d (AList.delete t cur) = Inr m" by simp
    from Cons.prems(2) e True have "(CHR ''-'' # t) \<notin> fst ` set d" by auto
    from merge_config_untouched [OF m nt this] show ?thesis by (simp add: delete_conv')
  next
    case False
    with Cons.prems(3) e have mem: "(CHR ''-'' # t) \<in> fst ` set d" by auto
    from del upd obtain cur' where "merge_config d cur' = Inr m" by blast
    from Cons.IH [OF this dd mem nt] show ?thesis .
  qed
qed

text \<open>A map that already has what the delta asks for is returned as it is.\<close>

lemma merge_config_fixed:
  "\<forall>(k, v) \<in> set d. k \<noteq> [] \<and>
     (if is_deletion k then map_of m (tl k) = None else map_of m k = Some v)
   \<Longrightarrow> merge_config d m = Inr m"
proof (induction d)
  case Nil
  then show ?case by simp
next
  case (Cons e d)
  obtain k v where e: "e = (k, v)" by (cases e)
  with Cons.prems obtain c rest where k: "k = c # rest" by (cases k) auto
  show ?case
  proof (cases "c = CHR ''-''")
    case True
    with Cons.prems e k have "map_of m rest = None" by (simp add: is_deletion_def)
    then have "AList.delete rest m = m" by (simp add: map_of_eq_None_iff)
    with Cons e k True show ?thesis by simp
  next
    case False
    with Cons.prems e k have "map_of m k = Some v" by (simp add: is_deletion_def)
    then have "AList.update k v m = m" by (simp add: update_triv)
    with Cons e k False show ?thesis by simp
  qed
qed

text \<open>The headers loop: a key that is not in the delta is left as it was.\<close>

lemma merge_headers_untouched:
  "merge_headers d cur = Inr m \<Longrightarrow> t \<notin> fst ` set d \<Longrightarrow> map_of m t = map_of cur t"
proof (induction d arbitrary: cur)
  case Nil
  then show ?case by simp
next
  case (Cons e d)
  obtain k v where e: "e = (k, v)" by (cases e)
  from Cons.prems e have nk: "k \<noteq> t" and nt: "t \<notin> fst ` set d" by auto
  from Cons.prems(1) e have "merge_headers ((k, v) # d) cur = Inr m" by simp
  then obtain c rest where k: "k = c # rest"
    and step: "merge_headers d (if c = CHR ''-'' then AList.delete k cur else AList.update k v cur) = Inr m"
    using merge_headers_step by blast
  have del: "c = CHR ''-'' \<Longrightarrow> merge_headers d (AList.delete k cur) = Inr m"
    using step by simp
  have upd: "c \<noteq> CHR ''-'' \<Longrightarrow> merge_headers d (AList.update k v cur) = Inr m"
    using step by simp
  show ?case
  proof (cases "c = CHR ''-''")
    case True
    with Cons.IH [OF del [OF True] nt] nk show ?thesis by (simp add: delete_conv')
  next
    case False
    with Cons.IH [OF upd [OF False] nt] nk show ?thesis by (simp add: update_conv')
  qed
qed

text \<open>The headers loop: every key of the delta ends up set, or absent under its own name.\<close>

lemma merge_headers_key:
  "merge_headers d cur = Inr m \<Longrightarrow> distinct (map fst d) \<Longrightarrow> (k, v) \<in> set d \<Longrightarrow>
   map_of m k = (if is_deletion k then None else Some v)"
proof (induction d arbitrary: cur)
  case Nil
  then show ?case by simp
next
  case (Cons e d)
  obtain k' v' where e: "e = (k', v')" by (cases e)
  from Cons.prems have dd: "distinct (map fst d)" by auto
  from Cons.prems(1) e have "merge_headers ((k', v') # d) cur = Inr m" by simp
  then obtain c rest where k': "k' = c # rest"
    and step: "merge_headers d (if c = CHR ''-'' then AList.delete k' cur else AList.update k' v' cur) = Inr m"
    using merge_headers_step by blast
  have del: "c = CHR ''-'' \<Longrightarrow> merge_headers d (AList.delete k' cur) = Inr m"
    using step by simp
  have upd: "c \<noteq> CHR ''-'' \<Longrightarrow> merge_headers d (AList.update k' v' cur) = Inr m"
    using step by simp
  show ?case
  proof (cases "(k, v) = e")
    case True
    with e have kk: "k' = k" "v' = v" by auto
    from Cons.prems(2) e kk have nk: "k \<notin> fst ` set d" by auto
    show ?thesis
    proof (cases "c = CHR ''-''")
      case True
      from merge_headers_untouched [OF del [OF True] ] nk kk
      have "map_of m k = map_of (AList.delete k cur) k" by blast
      with True k' kk show ?thesis by (simp add: delete_conv' is_deletion_def)
    next
      case False
      from merge_headers_untouched [OF upd [OF False]] nk kk
      have "map_of m k = map_of (AList.update k v cur) k" by blast
      with False k' kk show ?thesis by (simp add: update_conv' is_deletion_def)
    qed
  next
    case False
    with Cons.prems have mem: "(k, v) \<in> set d" by auto
    from del upd obtain cur' where "merge_headers d cur' = Inr m" by blast
    from Cons.IH [OF this dd mem] show ?thesis .
  qed
qed

lemma merge_headers_fixed:
  "\<forall>(k, v) \<in> set d. k \<noteq> [] \<and> map_of m k = (if is_deletion k then None else Some v)
   \<Longrightarrow> merge_headers d m = Inr m"
proof (induction d)
  case Nil
  then show ?case by simp
next
  case (Cons e d)
  obtain k v where e: "e = (k, v)" by (cases e)
  with Cons.prems obtain c rest where k: "k = c # rest" by (cases k) auto
  show ?case
  proof (cases "c = CHR ''-''")
    case True
    with Cons.prems e k have "map_of m k = None" by (simp add: is_deletion_def)
    then have "AList.delete k m = m" by (simp add: map_of_eq_None_iff)
    with Cons e k True show ?thesis by simp
  next
    case False
    with Cons.prems e k have "map_of m k = Some v" by (simp add: is_deletion_def)
    then have "AList.update k v m = m" by (simp add: update_triv)
    with Cons e k False show ?thesis by simp
  qed
qed

text \<open>In a delta free of conflicts, an entry marked for deletion is not set as well.\<close>

lemma conflict_free_deleted:
  "conflict_free d \<Longrightarrow> (CHR ''-'' # t) \<in> fst ` set d \<Longrightarrow> t \<notin> fst ` set d \<or> is_deletion t"
  by (auto simp: conflict_free_def list_all_iff)

lemma conflict_free_set:
  "conflict_free d \<Longrightarrow> (k, v) \<in> set d \<Longrightarrow> \<not> is_deletion k \<Longrightarrow> (CHR ''-'' # k) \<notin> fst ` set d"
  by (force simp: conflict_free_def list_all_iff)

section \<open>The merge of config and headers\<close>

text \<open>
  C1. The claim: a deletion key \<^verbatim>\<open>-k\<close> in the delta's headers removes \<^verbatim>\<open>k\<close> from the
  fetched route's headers, as it does for config. The headers loop deletes the key
  \<^verbatim>\<open>-k\<close> itself (line 411), where the config loop deletes \<^verbatim>\<open>k[1:]\<close> (line 402). On a
  route with the header \<^verbatim>\<open>X-Drop\<close> and the config key \<^verbatim>\<open>a\<close>, the delta with headers
  \<^verbatim>\<open>{"-X-Drop": []}\<close> and config \<^verbatim>\<open>{"-a": ""}\<close> removes \<^verbatim>\<open>a\<close> from the config submitted
  and leaves \<^verbatim>\<open>X-Drop\<close> in the headers submitted.
\<close>

theorem headers_deletion_keeps_key:
  "snd (patchRoute example_client ''app1'' ''/hello''
          (Some (empty_delta\<lparr>Config := Some [(''-a'', [])],
                              Headers := Some [(''-X-Drop'', [])]\<rparr>)))
   = [GetCall ''app1'' ''/hello'',
      PatchCall ''app1'' ''/hello''
        (example_route\<lparr>Path := [], Config := Some [],
                         Headers := Some [(''X-Drop'', [''1''])]\<rparr>)]"
  by (simp add: patchRoute_def example_client_def example_route_def empty_delta_def
      apply_delta_def normalize_def entries_def patch_fields_def word_sless_alt)

text \<open>
  C2, as amended. For every delta config map whose keys are not empty and in which no
  key \<^verbatim>\<open>k\<close> that sets an entry occurs together with its deletion key \<^verbatim>\<open>-k\<close>, in whatever
  order the loop visits it: the merge returns; every non-deletion key of the delta
  maps to the delta's value; for every deletion key \<^verbatim>\<open>-k\<close> the key \<^verbatim>\<open>k\<close> is absent,
  whether or not it was there; every key that the delta neither sets nor marks for
  deletion keeps its fetched value.
\<close>

theorem config_merge_postcondition:
  assumes "distinct (map fst d)" and "[] \<notin> fst ` set d" and "conflict_free d"
  shows "\<exists>m. merge_config d cur = Inr m \<and>
           (\<forall>(k, v) \<in> set d. \<not> is_deletion k \<longrightarrow> map_of m k = Some v) \<and>
           (\<forall>k. (CHR ''-'' # k) \<in> fst ` set d \<longrightarrow> map_of m k = None) \<and>
           (\<forall>k. (k \<notin> fst ` set d \<or> is_deletion k) \<and> (CHR ''-'' # k) \<notin> fst ` set d
                 \<longrightarrow> map_of m k = map_of cur k)"
proof -
  from assms(2) obtain m where m: "merge_config d cur = Inr m"
    using merge_config_total by blast
  have "map_of m k = Some v" if "(k, v) \<in> set d" "\<not> is_deletion k" for k v
    using merge_config_set [OF m assms(1) that] conflict_free_set [OF assms(3) that] by blast
  moreover have "map_of m k = None" if "(CHR ''-'' # k) \<in> fst ` set d" for k
    using merge_config_deleted [OF m assms(1) that] conflict_free_deleted [OF assms(3) that]
    by blast
  moreover have "map_of m k = map_of cur k"
    if "k \<notin> fst ` set d \<or> is_deletion k" "(CHR ''-'' # k) \<notin> fst ` set d" for k
    using merge_config_untouched [OF m that] .
  ultimately show ?thesis using m by blast
qed

text \<open>
  The amended claim on the two examples of the specification, in one delta: on the
  config \<^verbatim>\<open>{"a": "1", "b": "2"}\<close>, the delta \<^verbatim>\<open>{"c": "3", "-a": ""}\<close> sets \<^verbatim>\<open>c\<close>, removes \<^verbatim>\<open>a\<close>
  and keeps \<^verbatim>\<open>b\<close>.
\<close>

theorem config_merge_postcondition_witness:
  "distinct (map fst [(''c'', ''3''), (''-a'', '''')]) \<and>
   [] \<notin> fst ` set [(''c'', ''3''), (''-a'', '''')] \<and>
   conflict_free [(''c'', ''3''), (''-a'', '''')] \<and>
   (\<exists>m. merge_config [(''c'', ''3''), (''-a'', '''')] [(''a'', ''1''), (''b'', ''2'')] = Inr m \<and>
        map_of m ''c'' = Some ''3'' \<and> map_of m ''a'' = None \<and> map_of m ''b'' = Some ''2'')"
proof -
  have h1: "distinct (map fst [(''c'', ''3''), (''-a'', '''')])" by simp
  have h2: "[] \<notin> fst ` set [(''c'', ''3''), (''-a'', '''')]" by simp
  have h3: "conflict_free [(''c'', ''3''), (''-a'', '''')]"
    by (simp add: conflict_free_def is_deletion_def)
  from config_merge_postcondition [OF h1 h2 h3, of "[(''a'', ''1''), (''b'', ''2'')]"]
  obtain m where m: "merge_config [(''c'', ''3''), (''-a'', '''')] [(''a'', ''1''), (''b'', ''2'')] = Inr m"
    and s: "\<forall>(k, v) \<in> set [(''c'', ''3''), (''-a'', '''')]. \<not> is_deletion k \<longrightarrow> map_of m k = Some v"
    and d: "\<forall>k. (CHR ''-'' # k) \<in> fst ` set [(''c'', ''3''), (''-a'', '''')] \<longrightarrow> map_of m k = None"
    and u: "\<forall>k. (k \<notin> fst ` set [(''c'', ''3''), (''-a'', '''')] \<or> is_deletion k) \<and>
                (CHR ''-'' # k) \<notin> fst ` set [(''c'', ''3''), (''-a'', '''')]
                \<longrightarrow> map_of m k = map_of [(''a'', ''1''), (''b'', ''2'')] k"
    by blast
  from s have "map_of m ''c'' = Some ''3''" by (simp add: is_deletion_def)
  moreover from d have "map_of m ''a'' = None" by simp
  moreover from u [rule_format, of "''b''"] have "map_of m ''b'' = Some ''2''" by simp
  ultimately show ?thesis using h1 h2 h3 m by blast
qed

text \<open>
  The claim as stated, for every delta, fails on the delta \<^verbatim>\<open>{"a": "1", "-a": ""}\<close> in
  both orders of the loop: visiting \<^verbatim>\<open>a\<close> first leaves the non-deletion key \<^verbatim>\<open>a\<close>
  absent, visiting \<^verbatim>\<open>-a\<close> first leaves the key \<^verbatim>\<open>a\<close> of the deletion key \<^verbatim>\<open>-a\<close> present.
\<close>

theorem config_merge_conflict_counterexample:
  "merge_config [(''a'', ''1''), (''-a'', '''')] [] = Inr [] \<and>
   merge_config [(''-a'', ''''), (''a'', ''1'')] [] = Inr [(''a'', ''1'')]"
  by simp

text \<open>
  C9, as amended. For every current config and headers mapping and every delta whose
  keys are not empty and in which no key \<^verbatim>\<open>k\<close> that sets an entry occurs together with
  its deletion key \<^verbatim>\<open>-k\<close>: the merge returns, and merging the same delta again, in
  whatever order the second loop visits it, returns the mapping unchanged.
\<close>

theorem merge_idempotent:
  assumes "distinct (map fst dc)" and "[] \<notin> fst ` set dc" and "conflict_free dc"
    and "distinct (map fst dc')" and "set dc' = set dc"
    and "distinct (map fst dh)" and "[] \<notin> fst ` set dh" and "conflict_free dh"
    and "distinct (map fst dh')" and "set dh' = set dh"
  shows "(\<exists>m. merge_config dc cfg = Inr m \<and> merge_config dc' m = Inr m) \<and>
         (\<exists>m. merge_headers dh hs = Inr m \<and> merge_headers dh' m = Inr m)"
proof
  from assms(2) obtain m where m: "merge_config dc cfg = Inr m"
    using merge_config_total by blast
  have "k \<noteq> [] \<and> (if is_deletion k then map_of m (tl k) = None else map_of m k = Some v)"
    if kv: "(k, v) \<in> set dc" for k v
  proof (cases "is_deletion k")
    case True
    then obtain t where k: "k = CHR ''-'' # t"
      by (cases k) (auto simp: is_deletion_def)
    with kv have mem: "(CHR ''-'' # t) \<in> fst ` set dc" by force
    from merge_config_deleted [OF m assms(1) mem conflict_free_deleted [OF assms(3) mem]]
    show ?thesis using True k by simp
  next
    case False
    from kv assms(2) have "k \<noteq> []" by force
    with merge_config_set [OF m assms(1) kv False conflict_free_set [OF assms(3) kv False]]
    show ?thesis using False by simp
  qed
  with assms(5) have "merge_config dc' m = Inr m"
    by (intro merge_config_fixed) auto
  with m show "\<exists>m. merge_config dc cfg = Inr m \<and> merge_config dc' m = Inr m" by blast
next
  from assms(7) obtain m where m: "merge_headers dh hs = Inr m"
    using merge_headers_total by blast
  have "k \<noteq> [] \<and> map_of m k = (if is_deletion k then None else Some v)"
    if kv: "(k, v) \<in> set dh" for k v
  proof -
    from kv assms(7) have "k \<noteq> []" by force
    with merge_headers_key [OF m assms(6) kv] show ?thesis by simp
  qed
  with assms(10) have "merge_headers dh' m = Inr m"
    by (intro merge_headers_fixed) auto
  with m show "\<exists>m. merge_headers dh hs = Inr m \<and> merge_headers dh' m = Inr m" by blast
qed

theorem merge_idempotent_witness:
  "distinct (map fst [(''c'', ''3''), (''-a'', '''')]) \<and>
   [] \<notin> fst ` set [(''c'', ''3''), (''-a'', '''')] \<and>
   conflict_free [(''c'', ''3''), (''-a'', '''')] \<and>
   distinct (map fst [(''-a'', ''''), (''c'', ''3'')]) \<and>
   set [(''-a'', ''''), (''c'', ''3'')] = set [(''c'', ''3''), (''-a'', '''')] \<and>
   distinct (map fst [(''X-New'', [''v1'', ''v2''])]) \<and>
   [] \<notin> fst ` set [(''X-New'', [''v1'', ''v2''])] \<and>
   conflict_free [(''X-New'', [''v1'', ''v2''])] \<and>
   (\<exists>m. merge_config [(''c'', ''3''), (''-a'', '''')] [(''a'', ''1''), (''b'', ''2'')] = Inr m \<and>
        merge_config [(''-a'', ''''), (''c'', ''3'')] m = Inr m) \<and>
   (\<exists>m. merge_headers [(''X-New'', [''v1'', ''v2''])] [(''X-Drop'', [''1''])] = Inr m \<and>
        merge_headers [(''X-New'', [''v1'', ''v2''])] m = Inr m)"
proof -
  have h1: "distinct (map fst [(''c'', ''3''), (''-a'', '''')])" by simp
  have h2: "[] \<notin> fst ` set [(''c'', ''3''), (''-a'', '''')]" by simp
  have h3: "conflict_free [(''c'', ''3''), (''-a'', '''')]"
    by (simp add: conflict_free_def is_deletion_def)
  have h4: "distinct (map fst [(''-a'', ''''), (''c'', ''3'')])" by simp
  have h5: "set [(''-a'', ''''), (''c'', ''3'')] = set [(''c'', ''3''), (''-a'', '''')]" by auto
  have h6: "distinct (map fst [(''X-New'', [''v1'', ''v2''])])" by simp
  have h7: "[] \<notin> fst ` set [(''X-New'', [''v1'', ''v2''])]" by simp
  have h8: "conflict_free [(''X-New'', [''v1'', ''v2''])]"
    by (simp add: conflict_free_def is_deletion_def)
  have h9: "set [(''X-New'', [''v1'', ''v2''])] = set [(''X-New'', [''v1'', ''v2''])]" by simp
  from merge_idempotent [OF h1 h2 h3 h4 h5 h6 h7 h8 h6 h9,
      of "[(''a'', ''1''), (''b'', ''2'')]" "[(''X-Drop'', [''1''])]"]
  show ?thesis using h1 h2 h3 h4 h5 h6 h7 h8 by blast
qed

text \<open>
  The claim as stated, for every delta, fails on the delta \<^verbatim>\<open>{"-a": "", "a": "1"}\<close> and
  the empty config: a first merge that visits \<^verbatim>\<open>-a\<close> before \<^verbatim>\<open>a\<close> yields \<^verbatim>\<open>{"a": "1"}\<close>,
  and a second merge of the same delta that visits \<^verbatim>\<open>a\<close> before \<^verbatim>\<open>-a\<close> yields the
  empty config.
\<close>

theorem merge_idempotent_counterexample:
  "merge_config [(''-a'', ''''), (''a'', ''1'')] [] = Inr [(''a'', ''1'')] \<and>
   merge_config [(''a'', ''1''), (''-a'', '''')] [(''a'', ''1'')] = Inr [] \<and>
   map_of [] ''a'' \<noteq> map_of [(''a'', ''1'')] ''a''"
  by simp

section \<open>patchRoute as a whole\<close>


lemma patch_fields_scalars:
  "Image (patch_fields r f) = (if Image r = [] then Image f else Image r)"
  "Format (patch_fields r f) = (if Format r = [] then Format f else Format r)"
  "Type (patch_fields r f) = (if Type r = [] then Type f else Type r)"
  "MaxConcurrency (patch_fields r f) =
     (if 0 <s MaxConcurrency r then MaxConcurrency r else MaxConcurrency f)"
  "Memory (patch_fields r f) = (if 0 <s Memory r then Memory r else Memory f)"
  "Timeout (patch_fields r f) = (case Timeout r of None \<Rightarrow> Timeout f | Some t \<Rightarrow> Some t)"
  by (auto simp: patch_fields_def Let_def split: option.splits)

lemma apply_delta_Some:
  "apply_delta (Some r) f = Inr body \<Longrightarrow>
   \<exists>cfg hs. body = patch_fields r (f\<lparr>Config := Some cfg, Headers := Some hs\<rparr>)"
  by (auto simp: apply_delta_def split: sum.splits option.splits)


lemma apply_delta_panics:
  "[] \<in> fst ` set (entries (Config r)) \<or> [] \<in> fst ` set (entries (Headers r)) \<Longrightarrow>
   \<exists>e. apply_delta (Some r) f = Inl e"
proof (cases "[] \<in> fst ` set (entries (Config r))")
  case True
  then obtain d where "Config r = Some d" "[] \<in> fst ` set d"
    by (cases "Config r") (auto simp: entries_def)
  then show ?thesis by (simp add: apply_delta_def merge_config_panics)
next
  case False
  assume "[] \<in> fst ` set (entries (Config r)) \<or> [] \<in> fst ` set (entries (Headers r))"
  with False obtain d where "Headers r = Some d" "[] \<in> fst ` set d"
    by (cases "Headers r") (auto simp: entries_def)
  then show ?thesis
    by (auto simp: apply_delta_def merge_headers_panics split: sum.splits option.splits)
qed

lemma apply_delta_returns:
  assumes "[] \<notin> fst ` set (entries (Config r))" and "[] \<notin> fst ` set (entries (Headers r))"
  shows "\<exists>body. apply_delta (Some r) f = Inr body"
proof -
  have "\<exists>cfg. (case Config r of None \<Rightarrow> Inr (entries (Config f))
                | Some d \<Rightarrow> merge_config d (entries (Config f))) = Inr cfg"
    using assms(1) merge_config_total [of _ "entries (Config f)"]
    by (cases "Config r") (auto simp: entries_def)
  moreover have "\<exists>hs. (case Headers r of None \<Rightarrow> Inr (entries (Headers f))
                | Some d \<Rightarrow> merge_headers d (entries (Headers f))) = Inr hs"
    using assms(2) merge_headers_total [of _ "entries (Headers f)"]
    by (cases "Headers r") (auto simp: entries_def)
  ultimately show ?thesis by (auto simp: apply_delta_def)
qed

lemma patchRoute_fetched:
  "GetAppsAppRoutesRoute a app p = Inr fetched \<Longrightarrow>
   patchRoute a app p r =
     (case apply_delta r (normalize fetched) of
        Inl e \<Rightarrow> (Panic, [GetCall app p])
      | Inr body \<Rightarrow>
          ((case PatchAppsAppRoutesRoute a app p body of
              None \<Rightarrow> Ok
            | Some err \<Rightarrow> Error (patch_error_message err)),
           [GetCall app p, PatchCall app p body]))"
  by (simp add: patchRoute_def)

lemma patchRoute_PatchCall:
  "PatchCall x y body \<in> set (snd (patchRoute a app p r)) \<Longrightarrow>
   x = app \<and> y = p \<and>
   (\<exists>fetched. GetAppsAppRoutesRoute a app p = Inr fetched \<and>
      apply_delta r (normalize fetched) = Inr body)"
  by (auto simp: patchRoute_def split: sum.splits)

text \<open>
  C5, as amended. In patchRoute, of the scalar fields of the fetched route, image,
  format and type are overwritten only if the delta's value is non-empty, max-concurrency
  and memory only if it is positive (so not when it is zero), and timeout whenever the
  delta carries a timeout (a non-nil pointer), a zero timeout included: only a delta
  without a timeout leaves the fetched route's timeout unchanged.
\<close>

theorem scalar_fields_overwrite:
  assumes "GetAppsAppRoutesRoute a app p = Inr fetched"
    and "[] \<notin> fst ` set (entries (Config r))" and "[] \<notin> fst ` set (entries (Headers r))"
  shows "\<exists>out body.
           patchRoute a app p (Some r) = (out, [GetCall app p, PatchCall app p body]) \<and>
           Image body = (if Image r = [] then Image fetched else Image r) \<and>
           Format body = (if Format r = [] then Format fetched else Format r) \<and>
           Type body = (if Type r = [] then Type fetched else Type r) \<and>
           MaxConcurrency body =
             (if 0 <s MaxConcurrency r then MaxConcurrency r else MaxConcurrency fetched) \<and>
           (MaxConcurrency r = 0 \<longrightarrow> MaxConcurrency body = MaxConcurrency fetched) \<and>
           Memory body = (if 0 <s Memory r then Memory r else Memory fetched) \<and>
           (Memory r = 0 \<longrightarrow> Memory body = Memory fetched) \<and>
           Timeout body = (case Timeout r of None \<Rightarrow> Timeout fetched | Some t \<Rightarrow> Some t)"
proof -
  from apply_delta_returns [OF assms(2,3)]
  obtain body where body: "apply_delta (Some r) (normalize fetched) = Inr body" by blast
  then obtain cfg hs
    where b: "body = patch_fields r ((normalize fetched)\<lparr>Config := Some cfg, Headers := Some hs\<rparr>)"
    using apply_delta_Some by blast
  have "patchRoute a app p (Some r) =
          ((case PatchAppsAppRoutesRoute a app p body of
              None \<Rightarrow> Ok
            | Some err \<Rightarrow> Error (patch_error_message err)),
           [GetCall app p, PatchCall app p body])"
    by (simp add: patchRoute_fetched [OF assms(1)] body)
  moreover have "Image body = (if Image r = [] then Image fetched else Image r)"
    and "Format body = (if Format r = [] then Format fetched else Format r)"
    and "Type body = (if Type r = [] then Type fetched else Type r)"
    and "Timeout body = (case Timeout r of None \<Rightarrow> Timeout fetched | Some t \<Rightarrow> Some t)"
    by (simp_all add: b patch_fields_scalars normalize_def split: option.splits)
  moreover have mc: "MaxConcurrency body =
      (if 0 <s MaxConcurrency r then MaxConcurrency r else MaxConcurrency fetched)"
    and mem: "Memory body = (if 0 <s Memory r then Memory r else Memory fetched)"
    by (simp_all add: b patch_fields_scalars normalize_def)
  moreover from mc have "MaxConcurrency r = 0 \<longrightarrow> MaxConcurrency body = MaxConcurrency fetched"
    by simp
  moreover from mem have "Memory r = 0 \<longrightarrow> Memory body = Memory fetched"
    by simp
  ultimately show ?thesis by blast
qed

theorem scalar_fields_overwrite_witness:
  "GetAppsAppRoutesRoute example_client ''app1'' ''/hello'' = Inr example_route \<and>
   [] \<notin> fst ` set (entries (Config (empty_delta\<lparr>Image := ''iron/hello:2''\<rparr>))) \<and>
   [] \<notin> fst ` set (entries (Headers (empty_delta\<lparr>Image := ''iron/hello:2''\<rparr>))) \<and>
   (\<exists>out body.
      patchRoute example_client ''app1'' ''/hello'' (Some (empty_delta\<lparr>Image := ''iron/hello:2''\<rparr>))
        = (out, [GetCall ''app1'' ''/hello'', PatchCall ''app1'' ''/hello'' body]) \<and>
      Image body = ''iron/hello:2'' \<and> Format body = ''http'' \<and> Type body = ''sync'' \<and>
      MaxConcurrency body = 1 \<and> Memory body = 128 \<and> Timeout body = Some 30)"
proof -
  have h1: "GetAppsAppRoutesRoute example_client ''app1'' ''/hello'' = Inr example_route"
    by (simp add: example_client_def)
  have h2: "[] \<notin> fst ` set (entries (Config (empty_delta\<lparr>Image := ''iron/hello:2''\<rparr>)))"
    by (simp add: empty_delta_def entries_def)
  have h3: "[] \<notin> fst ` set (entries (Headers (empty_delta\<lparr>Image := ''iron/hello:2''\<rparr>)))"
    by (simp add: empty_delta_def entries_def)
  from scalar_fields_overwrite [OF h1 h2 h3]
  show ?thesis using h1 h2 h3
    by (simp add: empty_delta_def example_route_def)
qed

text \<open>
  The claim as stated fails for the timeout: on a fetched route with a timeout of 30, a
  delta that carries the timeout 0 and nothing else submits the timeout 0.
\<close>

theorem zero_timeout_counterexample:
  "Timeout example_route = Some 30 \<and>
   snd (patchRoute example_client ''app1'' ''/hello'' (Some (empty_delta\<lparr>Timeout := Some 0\<rparr>)))
   = [GetCall ''app1'' ''/hello'',
      PatchCall ''app1'' ''/hello'' (example_route\<lparr>Path := [], Timeout := Some 0\<rparr>)]"
  by (simp add: patchRoute_def example_client_def example_route_def empty_delta_def
      apply_delta_def normalize_def entries_def patch_fields_def word_sless_alt)



text \<open>
  C8. When the fetch fails, patchRoute returns an error and the only call issued is the
  fetch: no replace call. A not-found error is returned as \<^verbatim>\<open>error: \<close> followed by the
  remote message, every other error as \<^verbatim>\<open>unexpected error: \<close> followed by its message.
\<close>

theorem fetch_failure_aborts:
  assumes "GetAppsAppRoutesRoute a app p = Inl err"
  shows "\<exists>msg. patchRoute a app p r = (Error msg, [GetCall app p]) \<and>
           (\<forall>x y body. PatchCall x y body \<notin> set (snd (patchRoute a app p r))) \<and>
           (case err of
              GetAppsAppRoutesRouteNotFound m \<Rightarrow> msg = ''error: '' @ m
            | GetAppsAppRoutesDefault m \<Rightarrow> msg = ''unexpected error: '' @ m
            | GetOtherError e \<Rightarrow> msg = ''unexpected error: '' @ e)"
  using assms by (cases err) (simp_all add: patchRoute_def)

theorem fetch_failure_aborts_witness:
  "GetAppsAppRoutesRoute notfound_client ''app1'' ''/hello''
     = Inl (GetAppsAppRoutesRouteNotFound ''Route not found'') \<and>
   patchRoute notfound_client ''app1'' ''/hello'' (Some (empty_delta\<lparr>Image := ''iron/hello:2''\<rparr>))
     = (Error ''error: Route not found'', [GetCall ''app1'' ''/hello''])"
proof -
  have h: "GetAppsAppRoutesRoute notfound_client ''app1'' ''/hello''
     = Inl (GetAppsAppRoutesRouteNotFound ''Route not found'')"
    by (simp add: notfound_client_def)
  from fetch_failure_aborts [OF h, of "Some (empty_delta\<lparr>Image := ''iron/hello:2''\<rparr>)"]
  show ?thesis using h by auto
qed

text \<open>
  C10. After a successful fetch, patchRoute with a delta panics, having issued no
  replace call, exactly when the delta's config map or its headers map has the empty
  string as a key; with no such key the merge returns and the replace call is issued.
\<close>

theorem empty_key_panics:
  assumes "GetAppsAppRoutesRoute a app p = Inr fetched"
  shows "if [] \<in> fst ` set (entries (Config r)) \<or> [] \<in> fst ` set (entries (Headers r))
         then patchRoute a app p (Some r) = (Panic, [GetCall app p])
         else \<exists>out body. out \<noteq> Panic \<and>
                patchRoute a app p (Some r) = (out, [GetCall app p, PatchCall app p body])"
proof (cases "[] \<in> fst ` set (entries (Config r)) \<or> [] \<in> fst ` set (entries (Headers r))")
  case True
  from apply_delta_panics [OF True] obtain e
    where "apply_delta (Some r) (normalize fetched) = Inl e" by blast
  with True show ?thesis by (simp add: patchRoute_fetched [OF assms])
next
  case False
  then have "[] \<notin> fst ` set (entries (Config r))" "[] \<notin> fst ` set (entries (Headers r))"
    by auto
  from apply_delta_returns [OF this] obtain body
    where "apply_delta (Some r) (normalize fetched) = Inr body" by blast
  with False show ?thesis
    by (auto simp: patchRoute_fetched [OF assms] split: option.splits)
qed

text \<open>
  The delta that \<^verbatim>\<open>config set\<close> builds for an empty key, \<^verbatim>\<open>{"": "v"}\<close>: the fetch is the
  only call, and patchRoute panics.
\<close>

theorem empty_key_panics_witness:
  "GetAppsAppRoutesRoute example_client ''app1'' ''/hello'' = Inr example_route \<and>
   patchRoute example_client ''app1'' ''/hello'' (Some (empty_delta\<lparr>Config := Some [([], ''v'')]\<rparr>))
     = (Panic, [GetCall ''app1'' ''/hello''])"
proof -
  have h: "GetAppsAppRoutesRoute example_client ''app1'' ''/hello'' = Inr example_route"
    by (simp add: example_client_def)
  from empty_key_panics [OF h, of "empty_delta\<lparr>Config := Some [([], ''v'')]\<rparr>"]
  show ?thesis using h by (simp add: empty_delta_def entries_def)
qed

section \<open>update and create\<close>


lemma apply_delta_empty_image:
  "apply_delta (Some r) f = Inr body \<Longrightarrow> Image r = [] \<Longrightarrow> Image body = Image f"
  by (auto dest!: apply_delta_Some simp: patch_fields_scalars)

lemma update_delta_loaded:
  assumes "2 \<le> length (Args c)" and "loadFuncfile e = (Some ff, None)"
    and "parse_headers (flag_headers c) [] = Inr hs"
    and "(if arg_get (Args c) 1 = []
          then (case ffPath ff of Some x \<Rightarrow> x | None \<Rightarrow> []) else arg_get (Args c) 1) = p"
    and "p \<noteq> []"
  shows "update_delta e c =
     Inr (arg_get (Args c) 0, p,
          \<lparr>Path = [],
           Image = (if arg_get (Args c) 2 \<noteq> [] then ffFullName ff else []),
           Memory = flag_memory c,
           Type = flag_type c,
           Config = extractEnvConfig e (flag_config c),
           Headers = Some hs,
           Format = (if flag_format c \<noteq> [] then flag_format c
                     else (case ffFormat ff of Some x \<Rightarrow> x | None \<Rightarrow> [])),
           MaxConcurrency = ucast (if 0 <s flag_max_concurrency c then flag_max_concurrency c
                     else (case ffMaxConcurrency ff of Some x \<Rightarrow> x | None \<Rightarrow> 0)),
           Timeout = Some (duration_seconds (if 0 <s flag_timeout c then flag_timeout c
                     else (case ffTimeout ff of Some x \<Rightarrow> x | None \<Rightarrow> 0)))\<rparr>)"
  using assms by (auto simp: update_delta_def Let_def split: option.splits)

text \<open>
  C3. The claim: on update, the descriptor's full image name is used when no image
  argument is given, and the argument wins when both are there. Line 484 tests
  \<^verbatim>\<open>image != ""\<close> under the comment \<^verbatim>\<open>flags take precedence\<close> and then assigns the
  descriptor's name: with the argument \<^verbatim>\<open>custom/hello:2\<close> and a function file named
  \<^verbatim>\<open>local/hello:0.0.1\<close> the route passed to patchRoute has the image of the function
  file, and with no image argument it has no image at all.
\<close>

theorem update_image_inverted:
  "update_delta funcfile_env (example_context\<lparr>Args := [''app1'', ''/hello'', ''custom/hello:2'']\<rparr>)
   = Inr (''app1'', ''/hello'',
          \<lparr>Path = [], Image = ''local/hello:0.0.1'', Memory = 0, Type = [], Config = Some [],
           Headers = Some [], Format = ''json'', MaxConcurrency = 5, Timeout = Some 30\<rparr>) \<and>
   update_delta funcfile_env example_context
   = Inr (''app1'', ''/hello'',
          \<lparr>Path = [], Image = [], Memory = 0, Type = [], Config = Some [],
           Headers = Some [], Format = ''json'', MaxConcurrency = 5, Timeout = Some 30\<rparr>)"
  by (simp add: update_delta_def funcfile_env_def example_context_def example_funcfile_def
      arg_get_def duration_seconds_def word_sless_alt)

text \<open>
  C4, as amended. An update invoked with an empty image argument and no function file
  fails with the same image-missing error as create, before any call to the server.
  Update goes on without an image only when a function file was loaded: with an empty
  image argument, a function file whose full name is empty and a path given, create
  fails with an image-missing error before any call, whereas update calls patchRoute
  with an empty image, and every payload it submits carries the image of the fetched
  route.
\<close>

theorem update_create_missing_image:
  assumes "2 \<le> length (Args c)" and "arg_get (Args c) 2 = []"
  shows "(snd (loadFuncfile e) = Some notFoundError \<longrightarrow>
            update a e c = (Error ''error: image name is missing or no function file found'', []) \<and>
            create a e c = (Error ''error: image name is missing or no function file found'', [])) \<and>
         (loadFuncfile e = (Some ff, None) \<and> ffFullName ff = [] \<and> arg_get (Args c) 1 \<noteq> [] \<and>
          parse_headers (flag_headers c) [] = Inr hs \<longrightarrow>
            create a e c = (Error ''error: function image name is missing'', []) \<and>
            (\<exists>r. Image r = [] \<and>
               update a e c = patchRoute a (arg_get (Args c) 0) (arg_get (Args c) 1) (Some r)) \<and>
            (\<forall>x y body. PatchCall x y body \<in> set (snd (update a e c)) \<longrightarrow>
               (\<exists>fetched. GetAppsAppRoutesRoute a x y = Inr fetched \<and>
                  Image body = Image fetched)))"
proof (intro conjI impI)
  assume nf: "snd (loadFuncfile e) = Some notFoundError"
  from assms nf show "update a e c
      = (Error ''error: image name is missing or no function file found'', [])"
    by (simp add: update_def update_delta_def Let_def)
  from assms nf show "create a e c
      = (Error ''error: image name is missing or no function file found'', [])"
    by (simp add: create_def create_prefill_def Let_def)
next
  assume h: "loadFuncfile e = (Some ff, None) \<and> ffFullName ff = [] \<and> arg_get (Args c) 1 \<noteq> [] \<and>
          parse_headers (flag_headers c) [] = Inr hs"
  from assms h show "create a e c = (Error ''error: function image name is missing'', [])"
    by (simp add: create_def create_prefill_def Let_def)
  from h have p: "(if arg_get (Args c) 1 = []
          then (case ffPath ff of Some x \<Rightarrow> x | None \<Rightarrow> []) else arg_get (Args c) 1)
        = arg_get (Args c) 1" by simp
  from h have l: "loadFuncfile e = (Some ff, None)"
    and ph: "parse_headers (flag_headers c) [] = Inr hs" and ne: "arg_get (Args c) 1 \<noteq> []"
    by simp_all
  note ud = update_delta_loaded [OF assms(1) l ph p ne]
  obtain r where r: "update_delta e c = Inr (arg_get (Args c) 0, arg_get (Args c) 1, r)"
    and img: "Image r = []"
    using ud assms(2) by simp
  then have u: "update a e c = patchRoute a (arg_get (Args c) 0) (arg_get (Args c) 1) (Some r)"
    by (simp add: update_def)
  with img show "\<exists>r. Image r = [] \<and>
      update a e c = patchRoute a (arg_get (Args c) 0) (arg_get (Args c) 1) (Some r)"
    by blast
  show "\<forall>x y body. PatchCall x y body \<in> set (snd (update a e c)) \<longrightarrow>
      (\<exists>fetched. GetAppsAppRoutesRoute a x y = Inr fetched \<and> Image body = Image fetched)"
  proof (intro allI impI)
    fix x y body
    assume "PatchCall x y body \<in> set (snd (update a e c))"
    with u have "PatchCall x y body
        \<in> set (snd (patchRoute a (arg_get (Args c) 0) (arg_get (Args c) 1) (Some r)))" by simp
    from patchRoute_PatchCall [OF this] obtain fetched
      where xy: "x = arg_get (Args c) 0" "y = arg_get (Args c) 1"
        and f: "GetAppsAppRoutesRoute a (arg_get (Args c) 0) (arg_get (Args c) 1) = Inr fetched"
        and b: "apply_delta (Some r) (normalize fetched) = Inr body"
      by blast
    from apply_delta_empty_image [OF b img] have "Image body = Image fetched"
      by (simp add: normalize_def)
    with xy f show "\<exists>fetched. GetAppsAppRoutesRoute a x y = Inr fetched \<and>
        Image body = Image fetched" by blast
  qed
qed

text \<open>
  Both situations on the example inputs: with no function file, update and create stop
  with the same error; with a function file that names no image, create stops and
  update submits a payload with the fetched route's image \<^verbatim>\<open>iron/hello\<close>.
\<close>

theorem update_create_missing_image_witness:
  "2 \<le> length (Args example_context) \<and> arg_get (Args example_context) 2 = [] \<and>
   snd (loadFuncfile no_funcfile_env) = Some notFoundError \<and>
   update example_client no_funcfile_env example_context
     = (Error ''error: image name is missing or no function file found'', []) \<and>
   create example_client no_funcfile_env example_context
     = (Error ''error: image name is missing or no function file found'', []) \<and>
   loadFuncfile (funcfile_env\<lparr>loadFuncfile := (Some (example_funcfile\<lparr>ffFullName := []\<rparr>), None)\<rparr>)
     = (Some (example_funcfile\<lparr>ffFullName := []\<rparr>), None) \<and>
   create example_client
     (funcfile_env\<lparr>loadFuncfile := (Some (example_funcfile\<lparr>ffFullName := []\<rparr>), None)\<rparr>)
     example_context
     = (Error ''error: function image name is missing'', []) \<and>
   snd (update example_client
        (funcfile_env\<lparr>loadFuncfile := (Some (example_funcfile\<lparr>ffFullName := []\<rparr>), None)\<rparr>)
        example_context)
   = [GetCall ''app1'' ''/hello'',
      PatchCall ''app1'' ''/hello''
        (example_route\<lparr>Path := [], Format := ''json'', MaxConcurrency := 5,
                         Timeout := Some 30\<rparr>)]"
proof -
  have h1: "2 \<le> length (Args example_context)" by (simp add: example_context_def)
  have h2: "arg_get (Args example_context) 2 = []" by (simp add: example_context_def arg_get_def)
  have h3: "snd (loadFuncfile no_funcfile_env) = Some notFoundError"
    by (simp add: no_funcfile_env_def)
  have h4: "loadFuncfile (funcfile_env\<lparr>loadFuncfile := (Some (example_funcfile\<lparr>ffFullName := []\<rparr>), None)\<rparr>)
     = (Some (example_funcfile\<lparr>ffFullName := []\<rparr>), None) \<and>
     ffFullName (example_funcfile\<lparr>ffFullName := []\<rparr>) = [] \<and>
     arg_get (Args example_context) 1 \<noteq> [] \<and>
     parse_headers (flag_headers example_context) [] = Inr []"
    by (simp add: example_context_def arg_get_def)
  from update_create_missing_image [OF h1 h2, where e = no_funcfile_env and a = example_client] h3
  have a: "update example_client no_funcfile_env example_context
     = (Error ''error: image name is missing or no function file found'', [])"
    "create example_client no_funcfile_env example_context
     = (Error ''error: image name is missing or no function file found'', [])"
    by blast+
  from update_create_missing_image [OF h1 h2,
      where e = "funcfile_env\<lparr>loadFuncfile := (Some (example_funcfile\<lparr>ffFullName := []\<rparr>), None)\<rparr>"
        and ff = "example_funcfile\<lparr>ffFullName := []\<rparr>" and hs = "[]" and a = example_client] h4
  have b: "create example_client
     (funcfile_env\<lparr>loadFuncfile := (Some (example_funcfile\<lparr>ffFullName := []\<rparr>), None)\<rparr>)
     example_context = (Error ''error: function image name is missing'', [])"
    by blast
  have "snd (update example_client
        (funcfile_env\<lparr>loadFuncfile := (Some (example_funcfile\<lparr>ffFullName := []\<rparr>), None)\<rparr>)
        example_context)
   = [GetCall ''app1'' ''/hello'',
      PatchCall ''app1'' ''/hello''
        (example_route\<lparr>Path := [], Format := ''json'', MaxConcurrency := 5,
                         Timeout := Some 30\<rparr>)]"
    by (simp add: update_def update_delta_def funcfile_env_def example_context_def
        example_funcfile_def arg_get_def duration_seconds_def word_sless_alt patchRoute_def
        example_client_def example_route_def apply_delta_def normalize_def entries_def
        patch_fields_def)
  with h1 h2 h3 h4 a b show ?thesis by blast
qed

text \<open>
  The claim as stated fails: with an empty image argument and no function file, update
  returns the image-missing error and calls nothing.
\<close>

theorem update_no_funcfile_counterexample:
  "update example_client no_funcfile_env example_context
   = (Error ''error: image name is missing or no function file found'', [])"
  by (simp add: update_def update_delta_def no_funcfile_env_def example_context_def arg_get_def)




end
